theory Spec2Isabelle
  imports Complex_Main "HOL-Library.Multiset" "HOL-Library.Char_ord" "HOL-Library.List_Lexorder"
begin

section \<open>Values of the API payload\<close>

text \<open>
  \<^verbatim>\<open>fetch_current_prices\<close> returns \<^verbatim>\<open>r.json()\<close>, annotated
  \<^verbatim>\<open>List[Dict[str, Any]]\<close>: a list of decoded JSON values. A JSON object is a Python
  dict, modelled as a map from keys to values. JSON numbers are modelled as reals: the
  pipeline never does arithmetic on them, it only tests them for truth, stores and compares
  them.
\<close>

datatype json =
    JNull
  | JBool bool
  | JNum real
  | JStr string
  | JArr "json list"
  | JObj "string \<rightharpoonup> json"

datatype error = AttributeError | IntegrityError | DatabaseError | IndexError

text \<open>Python truth value testing, as used by \<^verbatim>\<open>x or default\<close>.\<close>

fun truthy :: "json \<Rightarrow> bool" where
  "truthy JNull = False"
| "truthy (JBool b) = b"
| "truthy (JNum x) = (x \<noteq> 0)"
| "truthy (JStr s) = (s \<noteq> [])"
| "truthy (JArr xs) = (xs \<noteq> [])"
| "truthy (JObj d) = (d \<noteq> Map.empty)"

text \<open>\<^verbatim>\<open>a or b\<close>: the first operand when it is true, the second otherwise.\<close>

definition py_or :: "json \<Rightarrow> json \<Rightarrow> json" where
  "py_or a b = (if truthy a then a else b)"

text \<open>
  \<^verbatim>\<open>item.get(key)\<close>: a missing key gives \<^verbatim>\<open>None\<close>; only a dict has the method, on any
  other value the attribute lookup raises.
\<close>

definition dict_get :: "(string \<rightharpoonup> json) \<Rightarrow> string \<Rightarrow> json" where
  "dict_get d key = (case d key of None \<Rightarrow> JNull | Some v \<Rightarrow> v)"

definition get :: "json \<Rightarrow> string \<Rightarrow> error + json" where
  "get item key = (case item of JObj d \<Rightarrow> Inr (dict_get d key) | _ \<Rightarrow> Inl AttributeError)"

text \<open>
  \<^verbatim>\<open>str.upper\<close> on the ASCII letters; bytes outside \<^verbatim>\<open>a-z\<close> are left as they are
  (strings are byte lists here, so the case mapping of non-ASCII letters is outside the model).
\<close>

definition upper_char :: "char \<Rightarrow> char" where
  "upper_char c =
     (let n = (of_char c :: nat) in if 97 \<le> n \<and> n \<le> 122 then char_of (n - 32) else c)"

definition upper :: "json \<Rightarrow> error + string" where
  "upper v = (case v of JStr s \<Rightarrow> Inr (map upper_char s) | _ \<Rightarrow> Inl AttributeError)"

section \<open>Rows\<close>

text \<open>
  The columns of the table \<^verbatim>\<open>prices\<close> (\<^verbatim>\<open>CREATE_SQL\<close>), which are also the keys of the
  dicts built by \<^verbatim>\<open>normalize_rows\<close>. The seven columns that the query of
  \<^verbatim>\<open>export_snapshots\<close> selects form the base record (a record does not order its fields;
  the order of the selected columns is \<open>columns\<close> below), \<^verbatim>\<open>source\<close> extends it. The cell
  types of \<^verbatim>\<open>coin_id\<close> and of the four numeric columns are parameters: a frame built from
  the payload holds whatever the payload held, the table holds text and nullable reals.
\<close>

record ('id, 'v) report_row =
  ts_utc :: string
  coin_id :: 'id
  symbol :: string
  price_usd :: 'v
  market_cap_usd :: 'v
  volume_24h_usd :: 'v
  change_24h_pct :: 'v

record ('id, 'v) row = "('id, 'v) report_row" +
  source :: string

type_synonym frame_row = "(json, json) row"

definition SOURCE :: string where
  "SOURCE = ''coingecko''"

section \<open>The clock\<close>

text \<open>
  \<^verbatim>\<open>datetime.now(timezone.utc).strftime("%Y-%m-%d %H:%M:%S%z")\<close> reads the wall clock. The
  clock is state: \<open>reading c n\<close> is the formatted UTC time the \<open>n\<close>-th reading returns, and
  \<open>taken c\<close> counts the readings made so far.
\<close>

record clock =
  reading :: "nat \<Rightarrow> string"
  taken :: nat

definition datetime_now :: "clock \<Rightarrow> string \<times> clock" where
  "datetime_now c = (reading c (taken c), c\<lparr>taken := Suc (taken c)\<rparr>)"

section \<open>Normalize\<close>

text \<open>
  The dict appended by one iteration of the loop of \<^verbatim>\<open>normalize_rows\<close>. The entries are
  evaluated in the order they are written; the first failing call raises.
\<close>

definition row_of :: "string \<Rightarrow> json \<Rightarrow> error + frame_row" where
  "row_of now item =
     (case get item ''id'' of Inl e \<Rightarrow> Inl e | Inr v_id \<Rightarrow>
      case get item ''symbol'' of Inl e \<Rightarrow> Inl e | Inr v_symbol \<Rightarrow>
      case upper (py_or v_symbol (JStr '''')) of Inl e \<Rightarrow> Inl e | Inr v_upper \<Rightarrow>
      case get item ''current_price'' of Inl e \<Rightarrow> Inl e | Inr v_price \<Rightarrow>
      case get item ''market_cap'' of Inl e \<Rightarrow> Inl e | Inr v_cap \<Rightarrow>
      case get item ''total_volume'' of Inl e \<Rightarrow> Inl e | Inr v_volume \<Rightarrow>
      case get item ''price_change_percentage_24h'' of Inl e \<Rightarrow> Inl e | Inr v_change \<Rightarrow>
        Inr \<lparr>ts_utc = now, coin_id = v_id, symbol = v_upper, price_usd = v_price,
             market_cap_usd = v_cap, volume_24h_usd = v_volume,
             change_24h_pct = py_or v_change (JNum 0), source = SOURCE\<rparr>)"

text \<open>The \<^verbatim>\<open>for item in payload\<close> loop, with \<^verbatim>\<open>rows\<close> as the accumulator.\<close>

fun normalize_loop :: "string \<Rightarrow> json list \<Rightarrow> frame_row list \<Rightarrow> error + frame_row list" where
  "normalize_loop now [] rows = Inr rows"
| "normalize_loop now (item # payload) rows =
     (case row_of now item of
        Inl e \<Rightarrow> Inl e
      | Inr r \<Rightarrow> normalize_loop now payload (rows @ [r]))"

definition normalize_rows :: "json list \<Rightarrow> clock \<Rightarrow> (error + frame_row list) \<times> clock" where
  "normalize_rows payload c =
     (let (now, c') = datetime_now c in (normalize_loop now payload [], c'))"

section \<open>The store\<close>

text \<open>
  A frame handed to \<^verbatim>\<open>load_into_sqlite\<close> and the rows of the table: \<^verbatim>\<open>coin_id\<close> is text or
  null, the four \<^verbatim>\<open>REAL\<close> columns are nullable reals (pandas' \<^verbatim>\<open>NaN\<close> and \<^verbatim>\<open>None\<close> both
  reach SQLite as \<^verbatim>\<open>NULL\<close>). How SQLite's column affinities would convert cells of other
  Python types is outside the model.
\<close>

type_synonym price_row = "(string option, real option) row"

text \<open>
  The database file \<^verbatim>\<open>DB_PATH\<close>. The table \<^verbatim>\<open>prices\<close> may be missing (\<open>None\<close>). When it
  exists it has its rows, in insertion order, and \<open>keyed\<close> tells whether it was created by
  \<^verbatim>\<open>CREATE_SQL\<close>, with the \<^verbatim>\<open>NOT NULL\<close> columns and \<^verbatim>\<open>PRIMARY KEY (ts_utc, coin_id)\<close>, or by
  pandas' \<^verbatim>\<open>to_sql\<close>, which creates a missing table from the frame's columns without any
  constraint.
\<close>

record database =
  keyed :: bool
  stored :: "price_row list"

datatype level = INFO | WARNING

datatype message =
    DB_ready
  | No_rows_to_load
  | Loaded nat
  | Wrote string

datatype csv_field = Text string | Number real | Empty

type_synonym csv = "csv_field list list"

record world =
  db :: "database option"
  files :: "string \<rightharpoonup> csv"
  logged :: "(level \<times> message) list"

definition log_info :: "message \<Rightarrow> world \<Rightarrow> world" where
  "log_info m w = w\<lparr>logged := logged w @ [(INFO, m)]\<rparr>"

definition log_warning :: "message \<Rightarrow> world \<Rightarrow> world" where
  "log_warning m w = w\<lparr>logged := logged w @ [(WARNING, m)]\<rparr>"

text \<open>
  \<^verbatim>\<open>init_db\<close>: \<^verbatim>\<open>CREATE TABLE IF NOT EXISTS\<close> creates the keyed, empty table when there is
  none and leaves an existing table alone; the index of \<^verbatim>\<open>INDEX_SQL\<close> changes no row.
\<close>

definition init_db :: "world \<Rightarrow> world" where
  "init_db w =
     log_info DB_ready
       (w\<lparr>db := (case db w of
                     None \<Rightarrow> Some \<lparr>keyed = True, stored = []\<rparr>
                   | Some d \<Rightarrow> Some d)\<rparr>)"

section \<open>Load\<close>

definition primary_key :: "price_row \<Rightarrow> string \<times> string option" where
  "primary_key r = (ts_utc r, coin_id r)"

text \<open>
  One \<^verbatim>\<open>INSERT INTO prices\<close>. On a keyed table a null \<^verbatim>\<open>coin_id\<close> violates \<^verbatim>\<open>NOT NULL\<close> and
  a pair \<^verbatim>\<open>(ts_utc, coin_id)\<close> that a stored row has violates the primary key; both raise
  \<^verbatim>\<open>sqlite3.IntegrityError\<close>. (\<^verbatim>\<open>ts_utc\<close>, \<^verbatim>\<open>symbol\<close> and \<^verbatim>\<open>source\<close> are never null here.)
\<close>

definition insert_row :: "bool \<Rightarrow> price_row \<Rightarrow> price_row list \<Rightarrow> error + price_row list" where
  "insert_row k r t =
     (if k \<and> coin_id r = None then Inl IntegrityError
      else if k \<and> primary_key r \<in> primary_key ` set t then Inl IntegrityError
      else Inr (t @ [r]))"

text \<open>\<^verbatim>\<open>executemany\<close>: the rows of the frame one after the other, up to the first that fails.\<close>

fun executemany :: "bool \<Rightarrow> price_row list \<Rightarrow> price_row list \<Rightarrow> error + price_row list" where
  "executemany k [] t = Inr t"
| "executemany k (r # df) t =
     (case insert_row k r t of
        Inl e \<Rightarrow> Inl e
      | Inr t' \<Rightarrow> executemany k df t')"

text \<open>
  \<^verbatim>\<open>df.to_sql("prices", conn, if_exists="append", index=False)\<close> inside
  \<^verbatim>\<open>with sqlite3.connect(DB_PATH) as conn\<close>: a missing table is created first, unkeyed; the
  inserts run in one transaction, committed when all succeed and rolled back when one raises,
  which leaves the database as it was before the call.
\<close>

definition to_sql :: "price_row list \<Rightarrow> database option \<Rightarrow> error + database" where
  "to_sql df d =
     (let tbl = (case d of None \<Rightarrow> \<lparr>keyed = False, stored = []\<rparr> | Some x \<Rightarrow> x) in
      case executemany (keyed tbl) df (stored tbl) of
        Inl e \<Rightarrow> Inl e
      | Inr t' \<Rightarrow> Inr (tbl\<lparr>stored := t'\<rparr>))"

text \<open>
  A raised exception is \<open>Inl\<close> and carries the world the call leaves behind; a normal return
  is \<open>Inr\<close>.
\<close>

definition load_into_sqlite :: "price_row list \<Rightarrow> world \<Rightarrow> error \<times> world + world" where
  "load_into_sqlite df w =
     (if df = [] then Inr (log_warning No_rows_to_load w)
      else case to_sql df (db w) of
             Inl e \<Rightarrow> Inl (e, w)
           | Inr d' \<Rightarrow> Inr (log_info (Loaded (length df)) (w\<lparr>db := Some d'\<rparr>)))"

section \<open>Export\<close>

type_synonym snap_row = "(string option, real option) report_row"

text \<open>
  \<^verbatim>\<open>SELECT MAX(ts_utc)\<close>: the greatest text in byte order (SQLite's \<^verbatim>\<open>BINARY\<close> collation, the
  lexicographic order of strings here), \<^verbatim>\<open>NULL\<close> over no rows.
\<close>

fun sql_max :: "string list \<Rightarrow> string option" where
  "sql_max [] = None"
| "sql_max (x # xs) = (case sql_max xs of None \<Rightarrow> Some x | Some m \<Rightarrow> Some (max x m))"

text \<open>
  \<^verbatim>\<open>pd.read_sql_query("SELECT MAX(ts_utc) as ts FROM prices;", conn)["ts"]\<close>: an aggregate
  query returns one row whatever the table holds; a missing table raises
  \<^verbatim>\<open>pandas.errors.DatabaseError\<close>.
\<close>

definition read_max_ts :: "database option \<Rightarrow> error + string option list" where
  "read_max_ts d =
     (case d of
        None \<Rightarrow> Inl DatabaseError
      | Some x \<Rightarrow> Inr [sql_max (map ts_utc (stored x))])"

definition iloc0 :: "'a list \<Rightarrow> error + 'a" where
  "iloc0 xs = (case xs of [] \<Rightarrow> Inl IndexError | x # _ \<Rightarrow> Inr x)"

text \<open>
  Descending order with nulls last, as \<^verbatim>\<open>ORDER BY ... DESC\<close> of SQLite (where \<^verbatim>\<open>NULL\<close> is
  smaller than every value) and \<^verbatim>\<open>sort_values(..., ascending=False)\<close> of pandas (where
  \<^verbatim>\<open>na_position\<close> is \<^verbatim>\<open>'last'\<close>) both give it: \<open>desc_nulls_last a b\<close> says that a row with
  key \<open>a\<close> may stand before a row with key \<open>b\<close>.
\<close>

fun desc_nulls_last :: "real option \<Rightarrow> real option \<Rightarrow> bool" where
  "desc_nulls_last _ None = True"
| "desc_nulls_last None (Some _) = False"
| "desc_nulls_last (Some a) (Some b) = (b \<le> a)"

text \<open>
  The sort itself is an insertion sort that keeps rows with equal keys in their order.
  Neither library promises an order among equal keys; nothing below depends on it.
\<close>

fun insert_desc :: "('a \<Rightarrow> real option) \<Rightarrow> 'a \<Rightarrow> 'a list \<Rightarrow> 'a list" where
  "insert_desc key x [] = [x]"
| "insert_desc key x (y # ys) =
     (if desc_nulls_last (key x) (key y) then x # y # ys else y # insert_desc key x ys)"

definition sort_desc :: "('a \<Rightarrow> real option) \<Rightarrow> 'a list \<Rightarrow> 'a list" where
  "sort_desc key xs = foldr (insert_desc key) xs []"

text \<open>The column list of the \<^verbatim>\<open>SELECT\<close>, which is the column order of the frame it returns.\<close>

definition columns :: "string list" where
  "columns = [''coin_id'', ''symbol'', ''ts_utc'', ''price_usd'', ''market_cap_usd'',
              ''volume_24h_usd'', ''change_24h_pct'']"

definition select_columns :: "price_row \<Rightarrow> snap_row" where
  "select_columns r =
     \<lparr>ts_utc = ts_utc r, coin_id = coin_id r, symbol = symbol r, price_usd = price_usd r,
      market_cap_usd = market_cap_usd r, volume_24h_usd = volume_24h_usd r,
      change_24h_pct = change_24h_pct r\<rparr>"

text \<open>
  The second query: \<^verbatim>\<open>WHERE ts_utc = ?\<close> with the parameter \<^verbatim>\<open>latest_ts\<close>. A \<^verbatim>\<open>NULL\<close>
  parameter equals nothing, so no row is selected.
\<close>

definition read_snapshot :: "string option \<Rightarrow> database option \<Rightarrow> error + snap_row list" where
  "read_snapshot latest_ts d =
     (case d of
        None \<Rightarrow> Inl DatabaseError
      | Some x \<Rightarrow>
          Inr (sort_desc market_cap_usd
                 (map select_columns
                    (filter (\<lambda>r. case latest_ts of None \<Rightarrow> False | Some t \<Rightarrow> ts_utc r = t)
                       (stored x)))))"

text \<open>
  \<^verbatim>\<open>to_csv(path, index=False)\<close>: the header line with the frame's column names, then one
  line per row. A file is kept as its lines of fields; the text of a number and the quoting
  of a field are left to the CSV writer. A null is an empty field.
\<close>

definition csv_text :: "string option \<Rightarrow> csv_field" where
  "csv_text v = (case v of None \<Rightarrow> Empty | Some s \<Rightarrow> Text s)"

definition csv_number :: "real option \<Rightarrow> csv_field" where
  "csv_number v = (case v of None \<Rightarrow> Empty | Some x \<Rightarrow> Number x)"

definition csv_line :: "snap_row \<Rightarrow> csv_field list" where
  "csv_line r =
     [csv_text (coin_id r), Text (symbol r), Text (ts_utc r), csv_number (price_usd r),
      csv_number (market_cap_usd r), csv_number (volume_24h_usd r),
      csv_number (change_24h_pct r)]"

definition to_csv :: "snap_row list \<Rightarrow> csv" where
  "to_csv frame = map Text columns # map csv_line frame"

text \<open>The two paths, relative to \<^verbatim>\<open>BASE_DIR\<close>.\<close>

definition WAREHOUSE :: string where
  "WAREHOUSE = ''data/warehouse''"

definition snap_path :: string where
  "snap_path = WAREHOUSE @ ''/latest_snapshot.csv''"

definition movers_path :: string where
  "movers_path = WAREHOUSE @ ''/top_movers_24h.csv''"

definition write_file :: "string \<Rightarrow> csv \<Rightarrow> world \<Rightarrow> world" where
  "write_file path content w = w\<lparr>files := (files w)(path \<mapsto> content)\<rparr>"

definition export_snapshots :: "world \<Rightarrow> error \<times> world + world" where
  "export_snapshots w =
     (case read_max_ts (db w) of Inl e \<Rightarrow> Inl (e, w) | Inr ts \<Rightarrow>
      case iloc0 ts of Inl e \<Rightarrow> Inl (e, w) | Inr latest_ts \<Rightarrow>
      case read_snapshot latest_ts (db w) of Inl e \<Rightarrow> Inl (e, w) | Inr snap \<Rightarrow>
        let w1 = log_info (Wrote snap_path) (write_file snap_path (to_csv snap) w);
            movers = sort_desc change_24h_pct snap
        in Inr (log_info (Wrote movers_path) (write_file movers_path (to_csv movers) w1)))"

section \<open>Notions used by the properties\<close>





text \<open>The observations a world holds: none when the table is missing.\<close>

definition observations :: "world \<Rightarrow> price_row list" where
  "observations w = (case db w of None \<Rightarrow> [] | Some d \<Rightarrow> stored d)"

definition keyed_table :: "world \<Rightarrow> bool" where
  "keyed_table w = (case db w of None \<Rightarrow> False | Some d \<Rightarrow> keyed d)"

text \<open>
  The column list of the data model, with the capture time under the name the table gives
  it.
\<close>

definition data_model_columns :: "string list" where
  "data_model_columns = [''ts_utc'', ''coin_id'', ''symbol'', ''price_usd'', ''market_cap_usd'',
                         ''volume_24h_usd'', ''change_24h_pct'', ''source'']"

text \<open>The file an export of a world leaves at a path; none when the export raises.\<close>

definition exported_file :: "world \<Rightarrow> string \<Rightarrow> csv option" where
  "exported_file w path = (case export_snapshots w of Inl _ \<Rightarrow> None | Inr w' \<Rightarrow> files w' path)"

section \<open>Example data\<close>

text \<open>
  A payload of two records, the second with a null symbol, a null 24h change and no price,
  market cap or volume; a clock; and the rows the payload normalizes to.
\<close>

definition bitcoin_record :: "string \<rightharpoonup> json" where
  "bitcoin_record =
     [''id'' \<mapsto> JStr ''bitcoin'', ''symbol'' \<mapsto> JStr ''btc'', ''current_price'' \<mapsto> JNum 40000,
      ''market_cap'' \<mapsto> JNum 800000000000, ''total_volume'' \<mapsto> JNum 20000000000,
      ''price_change_percentage_24h'' \<mapsto> JNum 2.5]"

definition sparse_record :: "string \<rightharpoonup> json" where
  "sparse_record =
     [''id'' \<mapsto> JStr ''ethereum'', ''symbol'' \<mapsto> JNull, ''price_change_percentage_24h'' \<mapsto> JNull]"

definition payload0 :: "json list" where
  "payload0 = [JObj bitcoin_record, JObj sparse_record]"

definition clock0 :: clock where
  "clock0 = \<lparr>reading = (\<lambda>n. if n = 0 then ''2024-01-01 00:00:00+0000''
                             else ''2024-01-02 00:00:00+0000''),
             taken = 0\<rparr>"

definition rows0 :: "frame_row list" where
  "rows0 =
     [\<lparr>ts_utc = ''2024-01-01 00:00:00+0000'', coin_id = JStr ''bitcoin'', symbol = ''BTC'',
       price_usd = JNum 40000, market_cap_usd = JNum 800000000000,
       volume_24h_usd = JNum 20000000000, change_24h_pct = JNum 2.5, source = ''coingecko''\<rparr>,
      \<lparr>ts_utc = ''2024-01-01 00:00:00+0000'', coin_id = JStr ''ethereum'', symbol = '''',
       price_usd = JNull, market_cap_usd = JNull, volume_24h_usd = JNull,
       change_24h_pct = JNum 0, source = ''coingecko''\<rparr>]"



text \<open>
  Observations at two capture times, a database file without the table, and a table seeded
  with the three observations.
\<close>

definition btc_old :: price_row where
  "btc_old = \<lparr>ts_utc = ''2023-12-31 00:00:00+0000'', coin_id = Some ''bitcoin'', symbol = ''BTC'',
     price_usd = Some 39000, market_cap_usd = Some 780000000000,
     volume_24h_usd = Some 19000000000, change_24h_pct = Some (-1), source = SOURCE\<rparr>"

definition btc :: price_row where
  "btc = \<lparr>ts_utc = ''2024-01-01 00:00:00+0000'', coin_id = Some ''bitcoin'', symbol = ''BTC'',
     price_usd = Some 40000, market_cap_usd = Some 800000000000,
     volume_24h_usd = Some 20000000000, change_24h_pct = Some 2.5, source = SOURCE\<rparr>"

definition eth :: price_row where
  "eth = \<lparr>ts_utc = ''2024-01-01 00:00:00+0000'', coin_id = Some ''ethereum'', symbol = ''ETH'',
     price_usd = Some 2000, market_cap_usd = Some 240000000000,
     volume_24h_usd = Some 10000000000, change_24h_pct = Some 5, source = SOURCE\<rparr>"

definition eth_retry :: price_row where
  "eth_retry = eth\<lparr>price_usd := Some 2001\<rparr>"

definition fresh :: world where
  "fresh = \<lparr>db = None, files = Map.empty, logged = []\<rparr>"

definition seeded_db :: database where
  "seeded_db = \<lparr>keyed = True, stored = [btc_old, btc, eth]\<rparr>"

definition seeded :: world where
  "seeded = \<lparr>db = Some seeded_db, files = Map.empty, logged = []\<rparr>"

definition loaded :: world where
  "loaded = \<lparr>db = Some \<lparr>keyed = True, stored = [btc, eth]\<rparr>, files = Map.empty,
             logged = [(INFO, DB_ready), (INFO, Loaded 2)]\<rparr>"

section \<open>Normalize: the rows of a payload\<close>

lemma normalize_rows_unfold:
  "normalize_rows payload c = (normalize_loop (reading c (taken c)) payload [], c\<lparr>taken := Suc (taken c)\<rparr>)"
  by (simp add: normalize_rows_def datetime_now_def)

lemma normalize_loop_rows:
  "normalize_loop now payload acc = Inr rows \<Longrightarrow>
   \<exists>rs. rows = acc @ rs \<and> list_all2 (\<lambda>item r. row_of now item = Inr r) payload rs"
proof (induction payload arbitrary: acc)
  case Nil
  then show ?case by simp
next
  case (Cons item payload)
  then obtain r where r: "row_of now item = Inr r"
    and rest: "normalize_loop now payload (acc @ [r]) = Inr rows"
    by (auto split: sum.splits)
  from Cons.IH [OF rest] obtain rs where "rows = (acc @ [r]) @ rs"
    and "list_all2 (\<lambda>item r. row_of now item = Inr r) payload rs" by blast
  with r show ?case by (intro exI [of _ "r # rs"]) simp
qed


lemma normalize_rows_nth:
  assumes "fst (normalize_rows payload c) = Inr rows"
  shows "length rows = length payload"
    and "i < length payload \<Longrightarrow> row_of (reading c (taken c)) (payload ! i) = Inr (rows ! i)"
proof -
  from assms have "normalize_loop (reading c (taken c)) payload [] = Inr rows"
    by (simp add: normalize_rows_unfold)
  from normalize_loop_rows [OF this]
  have all: "list_all2 (\<lambda>item r. row_of (reading c (taken c)) item = Inr r) payload rows"
    by simp
  then show "length rows = length payload" by (simp add: list_all2_lengthD)
  show "row_of (reading c (taken c)) (payload ! i) = Inr (rows ! i)" if "i < length payload"
    using list_all2_nthD [OF all that] by simp
qed

lemma row_of_fields:
  assumes "row_of now (JObj d) = Inr r"
  shows "ts_utc r = now" "coin_id r = dict_get d ''id''"
    "upper (py_or (dict_get d ''symbol'') (JStr '''')) = Inr (symbol r)"
    "price_usd r = dict_get d ''current_price''"
    "market_cap_usd r = dict_get d ''market_cap''"
    "volume_24h_usd r = dict_get d ''total_volume''"
    "change_24h_pct r = py_or (dict_get d ''price_change_percentage_24h'') (JNum 0)"
    "source r = SOURCE"
  using assms by (auto simp: row_of_def get_def split: sum.splits)


text \<open>
  Outside the documented response the call raises: on a record that is no object, and on an
  object whose \<^verbatim>\<open>symbol\<close> is a true value other than a string (\<^verbatim>\<open>.upper()\<close> is looked up
  on it).
\<close>

lemma row_of_not_dict:
  assumes "\<forall>d. item \<noteq> JObj d"
  shows "row_of now item = Inl AttributeError"
  using assms by (cases item) (auto simp: row_of_def get_def)

lemma row_of_symbol_not_text:
  assumes "d ''symbol'' = Some v" and "truthy v" and "\<forall>s. v \<noteq> JStr s"
  shows "row_of now (JObj d) = Inl AttributeError"
  using assms by (cases v) (auto simp: row_of_def get_def dict_get_def py_or_def upper_def)

section \<open>Descending order with nulls last\<close>

lemma desc_nulls_last_total: "\<not> desc_nulls_last a b \<Longrightarrow> desc_nulls_last b a"
  by (cases a; cases b) auto

lemma desc_nulls_last_trans:
  "desc_nulls_last a b \<Longrightarrow> desc_nulls_last b c \<Longrightarrow> desc_nulls_last a c"
  by (cases a; cases b; cases c) auto

lemma set_insert_desc: "set (insert_desc key x ys) = insert x (set ys)"
  by (induction ys) auto

lemma mset_insert_desc: "mset (insert_desc key x ys) = add_mset x (mset ys)"
  by (induction ys) auto

lemma mset_sort_desc: "mset (sort_desc key xs) = mset xs"
  by (induction xs) (auto simp: sort_desc_def mset_insert_desc)

lemma set_sort_desc: "set (sort_desc key xs) = set xs"
  using mset_sort_desc [of key xs] by (metis set_mset_mset)

lemma sorted_insert_desc:
  assumes "sorted_wrt (\<lambda>a b. desc_nulls_last (key a) (key b)) ys"
  shows "sorted_wrt (\<lambda>a b. desc_nulls_last (key a) (key b)) (insert_desc key x ys)"
  using assms
proof (induction ys)
  case Nil
  then show ?case by simp
next
  case (Cons y ys)
  show ?case
  proof (cases "desc_nulls_last (key x) (key y)")
    case True
    with Cons.prems show ?thesis
      by (auto intro: desc_nulls_last_trans)
  next
    case False
    then have "desc_nulls_last (key y) (key x)" by (rule desc_nulls_last_total)
    with False Cons show ?thesis
      by (auto simp: set_insert_desc)
  qed
qed

lemma sorted_sort_desc:
  "sorted_wrt (\<lambda>a b. desc_nulls_last (key a) (key b)) (sort_desc key xs)"
proof (induction xs)
  case Nil
  then show ?case by (simp add: sort_desc_def)
next
  case (Cons x xs)
  then show ?case
    using sorted_insert_desc [of key "sort_desc key xs" x] by (simp add: sort_desc_def)
qed

section \<open>The greatest capture time\<close>

lemma sql_max_Some: "xs \<noteq> [] \<Longrightarrow> sql_max xs = Some (Max (set xs))"
proof (induction xs)
  case Nil
  then show ?case by simp
next
  case (Cons x xs)
  show ?case
  proof (cases xs)
    case Nil
    then show ?thesis by simp
  next
    case (Cons y ys)
    with Cons.IH have "sql_max xs = Some (Max (set xs))" by simp
    with Cons show ?thesis by (simp add: max.commute)
  qed
qed

lemma sql_max_greatest:
  assumes "t \<in> set xs" and "\<forall>x\<in>set xs. x \<le> t"
  shows "sql_max xs = Some t"
proof -
  from assms(1) have "xs \<noteq> []" by auto
  moreover from assms have "Max (set xs) = t" by (intro Max_eqI) auto
  ultimately show ?thesis by (simp add: sql_max_Some)
qed

section \<open>Inserting a frame\<close>

lemma executemany_append: "executemany k df t = Inr t' \<Longrightarrow> t' = t @ df"
proof (induction df arbitrary: t)
  case Nil
  then show ?case by simp
next
  case (Cons r df)
  from Cons.prems obtain t1 where t1: "insert_row k r t = Inr t1"
    and rest: "executemany k df t1 = Inr t'"
    by (auto split: sum.splits)
  from t1 have "t1 = t @ [r]" by (auto simp: insert_row_def split: if_splits)
  with Cons.IH [OF rest] show ?case by simp
qed

lemma executemany_error: "executemany k df t = Inl e \<Longrightarrow> e = IntegrityError \<and> k"
proof (induction df arbitrary: t)
  case Nil
  then show ?case by simp
next
  case (Cons r df)
  show ?case
  proof (cases "insert_row k r t")
    case (Inl e')
    with Cons.prems show ?thesis by (auto simp: insert_row_def split: if_splits)
  next
    case (Inr t1)
    with Cons.prems have "executemany k df t1 = Inl e" by simp
    then show ?thesis by (rule Cons.IH)
  qed
qed

lemma executemany_duplicate:
  assumes "r \<in> set df" and "primary_key r \<in> primary_key ` set t"
  shows "executemany True df t = Inl IntegrityError"
  using assms
proof (induction df arbitrary: t)
  case Nil
  then show ?case by simp
next
  case (Cons x df)
  show ?case
  proof (cases "insert_row True x t")
    case (Inl e)
    then have "e = IntegrityError" by (auto simp: insert_row_def split: if_splits)
    with Inl show ?thesis by simp
  next
    case (Inr t')
    then have t': "t' = t @ [x]" and fresh: "primary_key x \<notin> primary_key ` set t"
      by (auto simp: insert_row_def split: if_splits)
    from fresh Cons.prems have "r \<in> set df" by auto
    moreover from Cons.prems t' have "primary_key r \<in> primary_key ` set t'" by auto
    ultimately have "executemany True df t' = Inl IntegrityError" by (rule Cons.IH)
    with Inr show ?thesis by simp
  qed
qed

lemma executemany_distinct:
  assumes "executemany True df t = Inr t'" and "distinct (map primary_key t)"
  shows "distinct (map primary_key t')"
  using assms
proof (induction df arbitrary: t)
  case Nil
  then show ?case by simp
next
  case (Cons r df)
  from Cons.prems(1) obtain t1 where t1: "insert_row True r t = Inr t1"
    and rest: "executemany True df t1 = Inr t'"
    by (auto split: sum.splits)
  from t1 have "t1 = t @ [r]" and "primary_key r \<notin> primary_key ` set t"
    by (auto simp: insert_row_def split: if_splits)
  with Cons.prems(2) have "distinct (map primary_key t1)" by simp
  with rest show ?case by (rule Cons.IH)
qed

lemma load_into_sqlite_Inr:
  assumes "load_into_sqlite df w = Inr w'"
  shows "observations w' = observations w @ df"
proof (cases "df = []")
  case True
  with assms show ?thesis
    by (auto simp: load_into_sqlite_def log_warning_def observations_def)
next
  case False
  with assms obtain d' where d': "to_sql df (db w) = Inr d'"
    and w': "w' = log_info (Loaded (length df)) (w\<lparr>db := Some d'\<rparr>)"
    by (auto simp: load_into_sqlite_def split: sum.splits)
  from d' have "stored d' = observations w @ df"
    by (auto simp: to_sql_def observations_def Let_def
        split: option.splits sum.splits dest: executemany_append)
  with w' show ?thesis by (simp add: observations_def log_info_def)
qed

lemma load_into_sqlite_Inl:
  assumes "load_into_sqlite df w = Inl (e, w')"
  shows "w' = w \<and> e = IntegrityError"
  using assms
  by (auto simp: load_into_sqlite_def to_sql_def Let_def
      split: if_splits sum.splits option.splits dest: executemany_error)

text \<open>
  \<^verbatim>\<open>run_fetch\<close> calls \<^verbatim>\<open>init_db\<close> before \<^verbatim>\<open>load_into_sqlite\<close>. On a database file that only
  this program writes, the table is therefore keyed whenever a frame is loaded, and stays
  so; its rows then never share a pair \<^verbatim>\<open>(ts_utc, coin_id)\<close>.
\<close>

lemma init_db_keyed:
  assumes "db w = None \<or> keyed_table w"
  shows "keyed_table (init_db w)"
  using assms by (auto simp: init_db_def keyed_table_def log_info_def split: option.splits)

lemma load_into_sqlite_keyed:
  assumes "keyed_table w" and "load_into_sqlite df w = Inr w'"
  shows "keyed_table w'"
  using assms
  by (auto simp: load_into_sqlite_def to_sql_def keyed_table_def log_info_def log_warning_def
      split: if_splits option.splits sum.splits)

lemma load_into_sqlite_unique:
  assumes "db w = Some d" and "keyed d" and "distinct (map primary_key (stored d))"
    and "load_into_sqlite df w = Inr w'"
  shows "distinct (map primary_key (observations w'))"
proof (cases "df = []")
  case True
  with assms show ?thesis
    by (auto simp: load_into_sqlite_def log_warning_def observations_def)
next
  case False
  with assms(1,2,4) obtain t' where t': "executemany True df (stored d) = Inr t'"
    and w': "w' = log_info (Loaded (length df)) (w\<lparr>db := Some (d\<lparr>stored := t'\<rparr>)\<rparr>)"
    by (auto simp: load_into_sqlite_def to_sql_def split: sum.splits)
  from executemany_distinct [OF t' assms(3)] w' show ?thesis
    by (simp add: observations_def log_info_def)
qed

section \<open>What an export writes\<close>

lemma paths_differ: "snap_path \<noteq> movers_path"
  by (simp add: snap_path_def movers_path_def)

lemma export_snapshots_table:
  assumes "db w = Some d"
  shows "export_snapshots w =
    Inr (log_info (Wrote movers_path)
          (write_file movers_path
             (to_csv (sort_desc change_24h_pct
                (sort_desc market_cap_usd (map select_columns
                   (filter (\<lambda>r. case sql_max (map ts_utc (stored d)) of
                                   None \<Rightarrow> False | Some t \<Rightarrow> ts_utc r = t) (stored d))))))
             (log_info (Wrote snap_path)
                (write_file snap_path
                   (to_csv (sort_desc market_cap_usd (map select_columns
                      (filter (\<lambda>r. case sql_max (map ts_utc (stored d)) of
                                      None \<Rightarrow> False | Some t \<Rightarrow> ts_utc r = t) (stored d)))))
                   w))))"
  using assms by (simp add: export_snapshots_def read_max_ts_def iloc0_def read_snapshot_def)

lemma export_snapshots_files:
  assumes "db w = Some d"
  shows "\<exists>w'. export_snapshots w = Inr w' \<and> db w' = db w \<and>
    files w' snap_path = Some (to_csv (sort_desc market_cap_usd (map select_columns
       (filter (\<lambda>r. case sql_max (map ts_utc (stored d)) of
                       None \<Rightarrow> False | Some t \<Rightarrow> ts_utc r = t) (stored d))))) \<and>
    files w' movers_path = Some (to_csv (sort_desc change_24h_pct
       (sort_desc market_cap_usd (map select_columns
          (filter (\<lambda>r. case sql_max (map ts_utc (stored d)) of
                          None \<Rightarrow> False | Some t \<Rightarrow> ts_utc r = t) (stored d))))))"
  using paths_differ
  by (simp add: export_snapshots_table [OF assms] log_info_def write_file_def)

lemma export_snapshots_db:
  "export_snapshots w = Inr w' \<Longrightarrow> db w' = db w"
  "export_snapshots w = Inl (e, w') \<Longrightarrow> w' = w"
  by (auto simp: export_snapshots_def log_info_def write_file_def Let_def split: sum.splits)

lemma export_snapshots_keyed:
  assumes "keyed_table w" and "export_snapshots w = Inr w'"
  shows "keyed_table w'"
  using assms export_snapshots_db(1) [of w w'] by (simp add: keyed_table_def)

lemma export_snapshots_missing_table:
  assumes "db w = None"
  shows "export_snapshots w = Inl (DatabaseError, w)"
  using assms by (simp add: export_snapshots_def read_max_ts_def)

section \<open>The examples, evaluated\<close>

lemma upper_char_btc:
  "upper_char CHR ''b'' = CHR ''B''" "upper_char CHR ''t'' = CHR ''T''"
  "upper_char CHR ''c'' = CHR ''C''"
  by code_simp+

lemma normalize_rows_payload0: "fst (normalize_rows payload0 clock0) = Inr rows0"
  by (simp add: normalize_rows_unfold payload0_def clock0_def rows0_def row_of_def get_def
      dict_get_def bitcoin_record_def sparse_record_def py_or_def upper_def upper_char_btc SOURCE_def)

lemma load_into_sqlite_loaded: "load_into_sqlite [btc, eth] (init_db fresh) = Inr loaded"
  by (simp add: load_into_sqlite_def to_sql_def init_db_def fresh_def loaded_def log_info_def
      insert_row_def primary_key_def btc_def eth_def)

text \<open>
  The scenario of the specification: the snapshot lists bitcoin before ethereum (market
  cap), the movers list ethereum before bitcoin (24h change); the older observation is in
  neither.
\<close>

lemma export_snapshots_seeded:
  "export_snapshots seeded =
     Inr (seeded\<lparr>files := [snap_path \<mapsto> to_csv [select_columns btc, select_columns eth],
                          movers_path \<mapsto> to_csv [select_columns eth, select_columns btc]],
                 logged := [(INFO, Wrote snap_path), (INFO, Wrote movers_path)]\<rparr>)"
  by (simp add: export_snapshots_def read_max_ts_def iloc0_def read_snapshot_def seeded_def
      seeded_db_def sort_desc_def select_columns_def btc_old_def btc_def eth_def log_info_def
      write_file_def)

section \<open>The properties\<close>




text \<open>
  C2. One call of \<^verbatim>\<open>normalize_rows\<close> reads the clock exactly once, whatever the payload and
  whether or not the call raises, and every row it returns carries that reading, which is
  the reading of the clock as it stood when the call began, before any record was looked
  at. (That the clock is the UTC clock is what \<open>reading\<close> stands for.)
\<close>

theorem normalize_rows_single_timestamp:
  "snd (normalize_rows payload c) = c\<lparr>taken := Suc (taken c)\<rparr> \<and>
   (\<forall>rows. fst (normalize_rows payload c) = Inr rows \<longrightarrow>
      (\<forall>r\<in>set rows. ts_utc r = reading c (taken c)))"
proof -
  have "ts_utc r = reading c (taken c)"
    if rows: "fst (normalize_rows payload c) = Inr rows" and r: "r \<in> set rows" for rows r
  proof -
    from r obtain i where i: "i < length rows" and ri: "rows ! i = r"
      by (auto simp: in_set_conv_nth)
    from i normalize_rows_nth(1) [OF rows] have i': "i < length payload" by simp
    from normalize_rows_nth(2) [OF rows i'] ri
    have "row_of (reading c (taken c)) (payload ! i) = Inr r" by simp
    then show ?thesis by (auto simp: row_of_def split: sum.splits)
  qed
  then show ?thesis by (simp add: normalize_rows_unfold)
qed

theorem normalize_rows_single_timestamp_witness:
  "snd (normalize_rows payload0 clock0) = clock0\<lparr>taken := 1\<rparr> \<and>
   fst (normalize_rows payload0 clock0) = Inr rows0 \<and> length rows0 = 2 \<and>
   list_all (\<lambda>r. ts_utc r = ''2024-01-01 00:00:00+0000'') rows0"
proof -
  from normalize_rows_single_timestamp [of payload0 clock0] normalize_rows_payload0
  have "snd (normalize_rows payload0 clock0) = clock0\<lparr>taken := Suc (taken clock0)\<rparr>"
    and "\<forall>r\<in>set rows0. ts_utc r = reading clock0 (taken clock0)"
    by simp_all
  moreover have "taken clock0 = 0" "reading clock0 0 = ''2024-01-01 00:00:00+0000''"
    by (simp_all add: clock0_def)
  moreover have "length rows0 = 2" by (simp add: rows0_def)
  ultimately show ?thesis using normalize_rows_payload0 by (simp add: list_all_iff)
qed

text \<open>
  C3. When the table exists and \<open>r2\<close> is a stored observation with the greatest capture time,
  \<^verbatim>\<open>export_snapshots\<close> returns and both files hold exactly the stored observations captured
  at that time, each as often as it is stored and with the seven selected columns, and no
  row of another capture time; the two reports have the same rows.
\<close>

theorem export_latest_only:
  assumes "db w = Some d" and "r2 \<in> set (stored d)"
    and "\<forall>r\<in>set (stored d). ts_utc r \<le> ts_utc r2"
  shows "\<exists>w' snap movers. export_snapshots w = Inr w' \<and>
    files w' snap_path = Some (to_csv snap) \<and>
    files w' movers_path = Some (to_csv movers) \<and>
    mset snap = mset (map select_columns (filter (\<lambda>r. ts_utc r = ts_utc r2) (stored d))) \<and>
    mset movers = mset snap \<and>
    (\<forall>x\<in>set snap \<union> set movers. ts_utc x = ts_utc r2)"
proof -
  from assms(2,3) have "sql_max (map ts_utc (stored d)) = Some (ts_utc r2)"
    by (intro sql_max_greatest) auto
  with export_snapshots_files [OF assms(1)] obtain w' where w': "export_snapshots w = Inr w'"
    and snap: "files w' snap_path = Some (to_csv (sort_desc market_cap_usd
        (map select_columns (filter (\<lambda>r. ts_utc r = ts_utc r2) (stored d)))))"
    and movers: "files w' movers_path = Some (to_csv (sort_desc change_24h_pct
        (sort_desc market_cap_usd
          (map select_columns (filter (\<lambda>r. ts_utc r = ts_utc r2) (stored d))))))"
    by auto
  have "ts_utc x = ts_utc r2"
    if "x \<in> set (map select_columns (filter (\<lambda>r. ts_utc r = ts_utc r2) (stored d)))" for x
    using that by (auto simp: select_columns_def)
  then have "\<forall>x\<in>set (sort_desc market_cap_usd
        (map select_columns (filter (\<lambda>r. ts_utc r = ts_utc r2) (stored d)))) \<union>
      set (sort_desc change_24h_pct (sort_desc market_cap_usd
        (map select_columns (filter (\<lambda>r. ts_utc r = ts_utc r2) (stored d))))).
      ts_utc x = ts_utc r2"
    by (simp add: set_sort_desc)
  with w' snap movers show ?thesis
    by (intro exI conjI) (assumption | rule mset_sort_desc)+
qed

theorem export_latest_only_witness:
  "eth \<in> set (stored seeded_db) \<and> list_all (\<lambda>r. ts_utc r \<le> ts_utc eth) (stored seeded_db) \<and>
   btc_old \<in> set (stored seeded_db) \<and> ts_utc btc_old < ts_utc eth \<and>
   (\<exists>w' snap movers. export_snapshots seeded = Inr w' \<and>
      files w' snap_path = Some (to_csv snap) \<and> files w' movers_path = Some (to_csv movers) \<and>
      mset snap = {#select_columns btc, select_columns eth#} \<and> mset movers = mset snap \<and>
      select_columns btc_old \<notin> set snap \<and> select_columns btc_old \<notin> set movers)"
proof -
  have tbl: "db seeded = Some seeded_db" by (simp add: seeded_def)
  have latest: "eth \<in> set (stored seeded_db)" "btc_old \<in> set (stored seeded_db)"
    by (simp_all add: seeded_db_def)
  have greatest: "\<forall>r\<in>set (stored seeded_db). ts_utc r \<le> ts_utc eth"
    and older: "ts_utc btc_old < ts_utc eth"
    by (simp_all add: seeded_db_def btc_old_def btc_def eth_def)
  from export_latest_only [OF tbl latest(1) greatest]
  obtain w' snap movers where run: "export_snapshots seeded = Inr w'"
    and snap: "files w' snap_path = Some (to_csv snap)"
    and movers: "files w' movers_path = Some (to_csv movers)"
    and rows: "mset snap =
      mset (map select_columns (filter (\<lambda>r. ts_utc r = ts_utc eth) (stored seeded_db)))"
    and same: "mset movers = mset snap"
    and only: "\<forall>x\<in>set snap \<union> set movers. ts_utc x = ts_utc eth"
    by blast
  have "filter (\<lambda>r. ts_utc r = ts_utc eth) (stored seeded_db) = [btc, eth]"
    by (simp add: seeded_db_def btc_old_def btc_def eth_def)
  with rows have rows': "mset snap = {#select_columns btc, select_columns eth#}" by simp
  have "ts_utc (select_columns btc_old) \<noteq> ts_utc eth"
    by (simp add: select_columns_def btc_old_def eth_def)
  with only have out: "select_columns btc_old \<notin> set snap" "select_columns btc_old \<notin> set movers"
    by blast+
  have "\<exists>w' snap movers. export_snapshots seeded = Inr w' \<and>
      files w' snap_path = Some (to_csv snap) \<and> files w' movers_path = Some (to_csv movers) \<and>
      mset snap = {#select_columns btc, select_columns eth#} \<and> mset movers = mset snap \<and>
      select_columns btc_old \<notin> set snap \<and> select_columns btc_old \<notin> set movers"
    by (intro exI [of _ w'] exI [of _ snap] exI [of _ movers] conjI)
      (rule run snap movers rows' same out)+
  with latest greatest older show ?thesis
    by (simp add: list_all_iff)
qed

text \<open>
  C4. When the table exists, the snapshot file lists its rows by \<^verbatim>\<open>market_cap_usd\<close>, never
  increasing and with the nulls last, and the movers file lists the same rows by
  \<^verbatim>\<open>change_24h_pct\<close>, never increasing and with the nulls last.
\<close>

theorem export_reports_sorted:
  assumes "db w = Some d"
  shows "\<exists>w' snap movers. export_snapshots w = Inr w' \<and>
    files w' snap_path = Some (to_csv snap) \<and>
    files w' movers_path = Some (to_csv movers) \<and>
    sorted_wrt (\<lambda>a b. desc_nulls_last (market_cap_usd a) (market_cap_usd b)) snap \<and>
    sorted_wrt (\<lambda>a b. desc_nulls_last (change_24h_pct a) (change_24h_pct b)) movers \<and>
    mset movers = mset snap"
proof -
  from export_snapshots_files [OF assms] obtain w' snap
    where "export_snapshots w = Inr w'"
      and "files w' snap_path = Some (to_csv (sort_desc market_cap_usd snap))"
      and "files w' movers_path =
        Some (to_csv (sort_desc change_24h_pct (sort_desc market_cap_usd snap)))"
    by blast
  then show ?thesis
    by (intro exI conjI) (assumption | rule sorted_sort_desc mset_sort_desc)+
qed

theorem export_reports_sorted_witness:
  "db seeded = Some seeded_db \<and>
   (\<exists>w' snap movers. export_snapshots seeded = Inr w' \<and>
      files w' snap_path = Some (to_csv snap) \<and>
      files w' movers_path = Some (to_csv movers) \<and>
      sorted_wrt (\<lambda>a b. desc_nulls_last (market_cap_usd a) (market_cap_usd b)) snap \<and>
      sorted_wrt (\<lambda>a b. desc_nulls_last (change_24h_pct a) (change_24h_pct b)) movers \<and>
      mset movers = mset snap)"
proof -
  have tbl: "db seeded = Some seeded_db" by (simp add: seeded_def)
  from export_reports_sorted [OF tbl] tbl show ?thesis by simp
qed

text \<open>
  C5, as amended. Both files start with a header line and have one line per observation of
  the latest capture time. The columns are, in this order, \<^verbatim>\<open>coin_id\<close>, \<^verbatim>\<open>symbol\<close>, \<^verbatim>\<open>ts_utc\<close>,
  \<^verbatim>\<open>price_usd\<close>, \<^verbatim>\<open>market_cap_usd\<close>, \<^verbatim>\<open>volume_24h_usd\<close>, \<^verbatim>\<open>change_24h_pct\<close>: the column list of
  the \<^verbatim>\<open>SELECT\<close>. The capture time is the third column, not the first, and \<^verbatim>\<open>source\<close> is not
  written.
\<close>

theorem export_csv_layout:
  assumes "db w = Some d"
  shows "\<exists>w' snap movers. export_snapshots w = Inr w' \<and>
    files w' snap_path =
      Some (map Text [''coin_id'', ''symbol'', ''ts_utc'', ''price_usd'', ''market_cap_usd'',
                      ''volume_24h_usd'', ''change_24h_pct''] # map csv_line snap) \<and>
    files w' movers_path =
      Some (map Text [''coin_id'', ''symbol'', ''ts_utc'', ''price_usd'', ''market_cap_usd'',
                      ''volume_24h_usd'', ''change_24h_pct''] # map csv_line movers) \<and>
    mset snap = mset (map select_columns
      (filter (\<lambda>r. Some (ts_utc r) = sql_max (map ts_utc (stored d))) (stored d))) \<and>
    mset movers = mset snap \<and>
    (\<forall>r. csv_line (select_columns r) =
       [csv_text (coin_id r), Text (symbol r), Text (ts_utc r), csv_number (price_usd r),
        csv_number (market_cap_usd r), csv_number (volume_24h_usd r),
        csv_number (change_24h_pct r)])"
proof -
  have same: "(\<lambda>r. case sql_max (map ts_utc (stored d)) of None \<Rightarrow> False | Some t \<Rightarrow> ts_utc r = t)
      = (\<lambda>r. Some (ts_utc r) = sql_max (map ts_utc (stored d)))"
    by (cases "sql_max (map ts_utc (stored d))") auto
  from export_snapshots_files [OF assms] obtain w'
    where "export_snapshots w = Inr w'"
      and "files w' snap_path = Some (to_csv (sort_desc market_cap_usd (map select_columns
        (filter (\<lambda>r. Some (ts_utc r) = sql_max (map ts_utc (stored d))) (stored d)))))"
      and "files w' movers_path = Some (to_csv (sort_desc change_24h_pct
        (sort_desc market_cap_usd (map select_columns
          (filter (\<lambda>r. Some (ts_utc r) = sql_max (map ts_utc (stored d))) (stored d))))))"
    unfolding same by blast
  moreover have "\<forall>r. csv_line (select_columns r) =
       [csv_text (coin_id r), Text (symbol r), Text (ts_utc r), csv_number (price_usd r),
        csv_number (market_cap_usd r), csv_number (volume_24h_usd r),
        csv_number (change_24h_pct r)]"
    by (simp add: csv_line_def select_columns_def)
  ultimately show ?thesis
    unfolding to_csv_def columns_def
    by (intro exI conjI) (assumption | rule mset_sort_desc)+
qed

theorem export_csv_layout_witness:
  "db seeded = Some seeded_db \<and>
   (\<exists>w' snap movers. export_snapshots seeded = Inr w' \<and>
      files w' snap_path =
        Some (map Text [''coin_id'', ''symbol'', ''ts_utc'', ''price_usd'', ''market_cap_usd'',
                        ''volume_24h_usd'', ''change_24h_pct''] # map csv_line snap) \<and>
      files w' movers_path =
        Some (map Text [''coin_id'', ''symbol'', ''ts_utc'', ''price_usd'', ''market_cap_usd'',
                        ''volume_24h_usd'', ''change_24h_pct''] # map csv_line movers) \<and>
      mset snap = {#select_columns btc, select_columns eth#} \<and>
      mset movers = mset snap)"
proof -
  have tbl: "db seeded = Some seeded_db" by (simp add: seeded_def)
  have "filter (\<lambda>r. Some (ts_utc r) = sql_max (map ts_utc (stored seeded_db))) (stored seeded_db)
      = [btc, eth]"
    by (simp add: seeded_db_def btc_old_def btc_def eth_def)
  with export_csv_layout [OF tbl] tbl show ?thesis by auto
qed

text \<open>
  C5, as stated, fails: the files written for the seeded table have seven columns starting
  with \<^verbatim>\<open>coin_id\<close>, not the eight columns of the data model starting with the capture time.
\<close>

theorem export_csv_columns_counterexample:
  "exported_file seeded snap_path =
     Some [map Text [''coin_id'', ''symbol'', ''ts_utc'', ''price_usd'', ''market_cap_usd'',
                     ''volume_24h_usd'', ''change_24h_pct''],
           [Text ''bitcoin'', Text ''BTC'', Text ''2024-01-01 00:00:00+0000'', Number 40000,
            Number 800000000000, Number 20000000000, Number 2.5],
           [Text ''ethereum'', Text ''ETH'', Text ''2024-01-01 00:00:00+0000'', Number 2000,
            Number 240000000000, Number 10000000000, Number 5]] \<and>
   map_option hd (exported_file seeded snap_path) \<noteq> Some (map Text data_model_columns) \<and>
   map_option hd (exported_file seeded movers_path) \<noteq> Some (map Text data_model_columns)"
  using paths_differ
  by (simp add: exported_file_def export_snapshots_seeded to_csv_def columns_def csv_line_def
      csv_text_def csv_number_def select_columns_def btc_def eth_def data_model_columns_def)

text \<open>
  C6. On the table created by \<^verbatim>\<open>CREATE_SQL\<close>, loading a frame that has a row with the
  \<^verbatim>\<open>ts_utc\<close> and \<^verbatim>\<open>coin_id\<close> of a stored row raises \<^verbatim>\<open>IntegrityError\<close> (the duplicate
  observation error) and leaves the world as it was: no row of the frame is stored, also
  not those before the duplicate.
\<close>

theorem load_duplicate_fails:
  assumes "db w = Some d" and "keyed d" and "r \<in> set df" and "q \<in> set (stored d)"
    and "ts_utc q = ts_utc r" and "coin_id q = coin_id r"
  shows "load_into_sqlite df w = Inl (IntegrityError, w)"
proof -
  from assms(5,6) have "primary_key r = primary_key q" by (simp add: primary_key_def)
  then have "primary_key r \<in> primary_key ` set (stored d)" using assms(4) by (rule image_eqI)
  with assms(3) have "executemany True df (stored d) = Inl IntegrityError"
    by (rule executemany_duplicate)
  moreover from assms(3) have "df \<noteq> []" by auto
  ultimately show ?thesis
    using assms(1,2) by (simp add: load_into_sqlite_def to_sql_def)
qed

theorem load_duplicate_fails_witness:
  "load_into_sqlite [btc, eth] (init_db fresh) = Inr loaded \<and>
   ts_utc eth = ts_utc eth_retry \<and> coin_id eth = coin_id eth_retry \<and> eth \<noteq> eth_retry \<and>
   load_into_sqlite [btc_old, eth_retry] loaded = Inl (IntegrityError, loaded)"
proof -
  have tbl: "db loaded = Some \<lparr>keyed = True, stored = [btc, eth]\<rparr>"
    by (simp add: loaded_def)
  have same: "ts_utc eth = ts_utc eth_retry" "coin_id eth = coin_id eth_retry"
    and differ: "eth \<noteq> eth_retry"
    by (simp_all add: eth_retry_def eth_def)
  from load_duplicate_fails [OF tbl, of eth_retry "[btc_old, eth_retry]" eth] same
  have "load_into_sqlite [btc_old, eth_retry] loaded = Inl (IntegrityError, loaded)"
    by simp
  with load_into_sqlite_loaded same differ show ?thesis by simp
qed

text \<open>
  C7. Loading an empty frame returns normally, changes neither the database nor the files,
  and logs one line at warning level.
\<close>

theorem load_empty_noop:
  "load_into_sqlite [] w = Inr (w\<lparr>logged := logged w @ [(WARNING, No_rows_to_load)]\<rparr>)"
  by (simp add: load_into_sqlite_def log_warning_def)

text \<open>
  C8, as amended. When the table exists and has no rows, \<^verbatim>\<open>export_snapshots\<close> returns
  normally: the first query gives the one value null, the second query no rows, and both
  files are written with the header line only.
\<close>

theorem export_empty_store:
  assumes "db w = Some d" and "stored d = []"
  shows "read_max_ts (db w) = Inr [None] \<and> read_snapshot None (db w) = Inr [] \<and>
    (\<exists>w'. export_snapshots w = Inr w' \<and> db w' = db w \<and>
       files w' snap_path = Some [map Text columns] \<and>
       files w' movers_path = Some [map Text columns])"
proof -
  from assms have "read_max_ts (db w) = Inr [None]" by (simp add: read_max_ts_def)
  moreover from assms have "read_snapshot None (db w) = Inr []"
    by (simp add: read_snapshot_def sort_desc_def)
  moreover from export_snapshots_files [OF assms(1)] assms(2)
  have "\<exists>w'. export_snapshots w = Inr w' \<and> db w' = db w \<and>
       files w' snap_path = Some [map Text columns] \<and>
       files w' movers_path = Some [map Text columns]"
    by (simp add: sort_desc_def to_csv_def)
  ultimately show ?thesis by simp
qed

theorem export_empty_store_witness:
  "db (init_db fresh) = Some \<lparr>keyed = True, stored = []\<rparr> \<and>
   read_max_ts (db (init_db fresh)) = Inr [None] \<and>
   read_snapshot None (db (init_db fresh)) = Inr [] \<and>
   (\<exists>w'. export_snapshots (init_db fresh) = Inr w' \<and> db w' = db (init_db fresh) \<and>
      files w' snap_path = Some [map Text columns] \<and>
      files w' movers_path = Some [map Text columns])"
proof -
  have tbl: "db (init_db fresh) = Some \<lparr>keyed = True, stored = []\<rparr>"
    by (simp add: init_db_def fresh_def log_info_def)
  from export_empty_store [OF tbl] tbl show ?thesis by simp
qed

text \<open>
  C8, as stated, fails on a store that is empty because nothing was ever fetched: the
  database file has no table \<^verbatim>\<open>prices\<close> (only \<^verbatim>\<open>run_fetch\<close> calls \<^verbatim>\<open>init_db\<close>), the first query
  raises and no file is written.
\<close>

theorem export_empty_store_counterexample:
  "observations fresh = [] \<and> export_snapshots fresh = Inl (DatabaseError, fresh) \<and>
   exported_file fresh snap_path = None \<and> exported_file fresh movers_path = None"
  by (simp add: observations_def exported_file_def export_snapshots_def read_max_ts_def fresh_def)

text \<open>
  C9. A load that returns normally leaves the stored observations followed by the rows of
  the frame, in order; a load that raises, an export, whether it returns or raises, and
  \<^verbatim>\<open>init_db\<close> leave the stored observations as they were. Nothing updates or deletes one.
\<close>

theorem store_only_grows:
  "(\<forall>w'. load_into_sqlite df w = Inr w' \<longrightarrow> observations w' = observations w @ df) \<and>
   (\<forall>e w'. load_into_sqlite df w = Inl (e, w') \<longrightarrow> observations w' = observations w) \<and>
   (\<forall>w'. export_snapshots w = Inr w' \<longrightarrow> observations w' = observations w) \<and>
   (\<forall>e w'. export_snapshots w = Inl (e, w') \<longrightarrow> observations w' = observations w) \<and>
   observations (init_db w) = observations w"
proof (intro conjI allI impI)
  show "observations w' = observations w @ df" if "load_into_sqlite df w = Inr w'" for w'
    using that by (rule load_into_sqlite_Inr)
  show "observations w' = observations w" if "load_into_sqlite df w = Inl (e, w')" for e w'
    using load_into_sqlite_Inl [OF that] by simp
  show "observations w' = observations w" if "export_snapshots w = Inr w'" for w'
    using export_snapshots_db(1) [OF that] by (simp add: observations_def)
  show "observations w' = observations w" if "export_snapshots w = Inl (e, w')" for e w'
    using export_snapshots_db(2) [OF that] by simp
  show "observations (init_db w) = observations w"
    by (simp add: init_db_def log_info_def observations_def split: option.splits)
qed

theorem store_only_grows_witness:
  "load_into_sqlite [btc, eth] (init_db fresh) = Inr loaded \<and>
   observations loaded = observations (init_db fresh) @ [btc, eth] \<and>
   load_into_sqlite [eth_retry] loaded = Inl (IntegrityError, loaded) \<and>
   export_snapshots fresh = Inl (DatabaseError, fresh) \<and>
   (\<exists>w'. export_snapshots loaded = Inr w' \<and> observations w' = observations loaded)"
proof -
  have retry: "load_into_sqlite [eth_retry] loaded = Inl (IntegrityError, loaded)"
    by (simp add: load_into_sqlite_def to_sql_def loaded_def insert_row_def primary_key_def
        eth_retry_def btc_def eth_def)
  have missing: "export_snapshots fresh = Inl (DatabaseError, fresh)"
    by (simp add: export_snapshots_def read_max_ts_def fresh_def)
  have "db loaded = Some \<lparr>keyed = True, stored = [btc, eth]\<rparr>" by (simp add: loaded_def)
  from export_snapshots_files [OF this] obtain w' where w': "export_snapshots loaded = Inr w'"
    by blast
  from store_only_grows [of "[btc, eth]" "init_db fresh"] load_into_sqlite_loaded
  have "observations loaded = observations (init_db fresh) @ [btc, eth]" by blast
  moreover from store_only_grows [of "[]" loaded] w'
  have "observations w' = observations loaded" by blast
  ultimately show ?thesis using load_into_sqlite_loaded retry missing w' by blast
qed

text \<open>
  C10. In the rows a call returns, a record whose \<^verbatim>\<open>price_change_percentage_24h\<close> is present
  and null has \<^verbatim>\<open>change_24h_pct\<close> 0, and a record whose \<^verbatim>\<open>symbol\<close> is present and null has
  the empty \<^verbatim>\<open>symbol\<close>.
\<close>

theorem normalize_rows_null_defaults:
  assumes "fst (normalize_rows payload c) = Inr rows"
    and "i < length payload" and "payload ! i = JObj d"
  shows "(d ''price_change_percentage_24h'' = Some JNull \<longrightarrow> change_24h_pct (rows ! i) = JNum 0) \<and>
         (d ''symbol'' = Some JNull \<longrightarrow> symbol (rows ! i) = '''')"
proof -
  from normalize_rows_nth(2) [OF assms(1,2)] assms(3)
  have r: "row_of (reading c (taken c)) (JObj d) = Inr (rows ! i)" by simp
  from row_of_fields(3,7) [OF r] show ?thesis
    by (auto simp: dict_get_def py_or_def upper_def)
qed

theorem normalize_rows_null_defaults_witness:
  "sparse_record ''price_change_percentage_24h'' = Some JNull \<and>
   sparse_record ''symbol'' = Some JNull \<and>
   fst (normalize_rows payload0 clock0) = Inr rows0 \<and>
   change_24h_pct (rows0 ! 1) = JNum 0 \<and> symbol (rows0 ! 1) = ''''"
proof -
  have nulls: "sparse_record ''price_change_percentage_24h'' = Some JNull"
    "sparse_record ''symbol'' = Some JNull"
    by (simp_all add: sparse_record_def)
  have "1 < length payload0" "payload0 ! 1 = JObj sparse_record"
    by (simp_all add: payload0_def)
  from normalize_rows_null_defaults [OF normalize_rows_payload0 this] nulls
  show ?thesis using normalize_rows_payload0 by simp
qed

end
